theory Spec2Isabelle
  imports Complex_Main
begin

section \<open>Simulation service types (services/simulationApi.ts)\<close>

text \<open>
  A number-typed field holds a finite binary64 value and is kept as the real it denotes.
  The arithmetic of the time queries and of the map interpolation is binary64 arithmetic:
  every subtraction, product, sum and quotient there is rounded to nearest, ties to even,
  and may overflow to an infinity (section \<open>Binary64 arithmetic\<close>). Strings are
  \<open>string\<close>, optional fields are \<open>option\<close>, and the untyped \<open>network: any\<close> is a
  type parameter wrapped in \<open>option\<close> (\<open>None\<close> is \<open>null\<close>). Field names that
  clash with HOL constants or with a field of another record carry a suffix.
\<close>

record TrainInput =
  id_input :: string
  name_input :: string
  from_station :: string
  to_station :: string
  departure_time :: real
  arrival_time :: real
  priority :: real
  train_type :: string
  max_speed :: real
  length_input :: real
  max_capacity :: real

record 'n SimulationRequest =
  request_trains :: "TrainInput list"
  network_config :: "'n option"
  priority_rule :: string
  max_time :: real
  time_step :: real

record SimulationLog =
  time :: real
  train_id :: string
  current_block :: "string option"
  current_station :: "string option"
  status :: string
  delay :: real
  speed :: real
  position :: "(real \<times> real) option"

record SimulationMetrics =
  total_delays :: real
  max_delay :: real
  average_delay :: real
  total_throughput :: real
  conflict_count :: real
  simulation_time :: real

record 'n SimulationResponse =
  success :: bool
  response_logs :: "SimulationLog list"
  response_metrics :: "SimulationMetrics option"
  response_network :: "'n option"
  message :: "string option"

text \<open>
  The awaited call \<open>simulationApi.runSimulation\<close> either resolves with a response or
  rejects: \<open>Rejected (Some m)\<close> is a thrown \<open>Error\<close> with message \<open>m\<close>,
  \<open>Rejected None\<close> any other thrown value.
\<close>

datatype 'n outcome = Resolved "'n SimulationResponse" | Rejected "string option"

section \<open>Binary64 arithmetic\<close>

text \<open>
  The value of a JavaScript arithmetic expression: a finite binary64 number, one of the
  two infinities, or NaN. The two zeros are not told apart; no operation of the modelled
  code (subtraction, product, sum, \<open>Math.abs\<close>, comparison) distinguishes them.
\<close>

datatype jsnum = Fin real | PosInf | NegInf | NaN

text \<open>
  The binary exponent of a nonzero magnitude, limited to the range of binary64: halving
  counts up to 1023, doubling counts down to \<open>-1022\<close>, where the subnormal numbers
  begin and the spacing no longer shrinks.
\<close>

fun expo_up :: "nat \<Rightarrow> real \<Rightarrow> int" where
  "expo_up 0 x = 0"
| "expo_up (Suc n) x = (if x < 2 then 0 else 1 + expo_up n (x / 2))"

fun expo_down :: "nat \<Rightarrow> real \<Rightarrow> int" where
  "expo_down 0 x = 0"
| "expo_down (Suc n) x = (if 1 \<le> x then 0 else expo_down n (2 * x) - 1)"

definition exponent64 :: "real \<Rightarrow> int" where
  "exponent64 x = (if 1 \<le> \<bar>x\<bar> then expo_up 1023 \<bar>x\<bar> else expo_down 1022 \<bar>x\<bar>)"

text \<open>The spacing of binary64 numbers around \<open>x\<close>: 52 fraction bits below the exponent.\<close>

definition ulp64 :: "real \<Rightarrow> real" where
  "ulp64 x = 2 powi (exponent64 x - 52)"

definition round_half_even :: "real \<Rightarrow> int" where
  "round_half_even y =
     (let f = \<lfloor>y\<rfloor>; d = y - of_int f
      in if d < 1 / 2 then f else if 1 / 2 < d then f + 1 else if even f then f else f + 1)"

definition round64 :: "real \<Rightarrow> real" where
  "round64 x = of_int (round_half_even (x / ulp64 x)) * ulp64 x"

text \<open>
  Rounding an exact result to binary64. The largest finite number is
  \<open>2 ^ 1024 - 2 ^ 971\<close>; a magnitude at or beyond the midpoint \<open>2 ^ 1024 - 2 ^ 970\<close>
  rounds to an infinity.
\<close>

definition fl64 :: "real \<Rightarrow> jsnum" where
  "fl64 x =
     (if 2 ^ 1024 - 2 ^ 970 \<le> \<bar>x\<bar> then (if 0 < x then PosInf else NegInf)
      else Fin (round64 x))"

definition representable64 :: "real \<Rightarrow> bool" where
  "representable64 x = (fl64 x = Fin x)"

fun neg64 :: "jsnum \<Rightarrow> jsnum" where
  "neg64 (Fin x) = Fin (- x)"
| "neg64 PosInf = NegInf"
| "neg64 NegInf = PosInf"
| "neg64 NaN = NaN"

fun plus64 :: "jsnum \<Rightarrow> jsnum \<Rightarrow> jsnum" where
  "plus64 (Fin x) (Fin y) = fl64 (x + y)"
| "plus64 NaN b = NaN"
| "plus64 a NaN = NaN"
| "plus64 PosInf NegInf = NaN"
| "plus64 NegInf PosInf = NaN"
| "plus64 PosInf b = PosInf"
| "plus64 NegInf b = NegInf"
| "plus64 a PosInf = PosInf"
| "plus64 a NegInf = NegInf"

definition minus64 :: "jsnum \<Rightarrow> jsnum \<Rightarrow> jsnum" where
  "minus64 a b = plus64 a (neg64 b)"

fun sign_inf :: "bool \<Rightarrow> jsnum" where
  "sign_inf True = PosInf"
| "sign_inf False = NegInf"

fun times64 :: "jsnum \<Rightarrow> jsnum \<Rightarrow> jsnum" where
  "times64 (Fin x) (Fin y) = fl64 (x * y)"
| "times64 NaN b = NaN"
| "times64 a NaN = NaN"
| "times64 PosInf (Fin y) = (if y = 0 then NaN else sign_inf (0 < y))"
| "times64 NegInf (Fin y) = (if y = 0 then NaN else sign_inf (y < 0))"
| "times64 (Fin x) PosInf = (if x = 0 then NaN else sign_inf (0 < x))"
| "times64 (Fin x) NegInf = (if x = 0 then NaN else sign_inf (x < 0))"
| "times64 PosInf PosInf = PosInf"
| "times64 NegInf NegInf = PosInf"
| "times64 PosInf NegInf = NegInf"
| "times64 NegInf PosInf = NegInf"

fun abs64 :: "jsnum \<Rightarrow> jsnum" where
  "abs64 (Fin x) = Fin \<bar>x\<bar>"
| "abs64 PosInf = PosInf"
| "abs64 NegInf = PosInf"
| "abs64 NaN = NaN"

text \<open>The comparison \<open>a < b\<close>: false whenever NaN is involved.\<close>

fun lt64 :: "jsnum \<Rightarrow> jsnum \<Rightarrow> bool" where
  "lt64 (Fin x) (Fin y) = (x < y)"
| "lt64 NaN b = False"
| "lt64 a NaN = False"
| "lt64 PosInf b = False"
| "lt64 a NegInf = False"
| "lt64 NegInf b = True"
| "lt64 a PosInf = True"

section \<open>Session state (contexts/SimulationContext.tsx)\<close>

text \<open>
  \<open>currentTime\<close> is declared \<open>number\<close>, but \<open>setCurrentTime\<close> stores whatever
  it is handed, and the playback interval of SimulationControl.tsx hands it an arrow
  function. The field therefore holds either a number or that closure, which is kept by
  the two variables it captures: \<open>playbackSpeed\<close> and \<open>maxLogTime\<close>.
\<close>

datatype timeval = Num real | TickUpdater real real

record 'n SimulationState =
  isRunning :: bool
  logs :: "SimulationLog list"
  metrics :: "SimulationMetrics option"
  network :: "'n option"
  currentTime :: timeval
  trains :: "TrainInput list"
  error :: "string option"

definition initialState :: "'n SimulationState" where
  "initialState =
     \<lparr>isRunning = False, logs = [], metrics = None, network = None,
      currentTime = Num 0, trains = [], error = None\<rparr>"

text \<open>\<open>a || d\<close> on an optional string: \<open>undefined\<close> and the empty string are falsy.\<close>

definition or_default :: "string option \<Rightarrow> string \<Rightarrow> string" where
  "or_default m d = (case m of None \<Rightarrow> d | Some s \<Rightarrow> if s = [] then d else s)"

text \<open>The first \<open>setState\<close> of \<open>runSimulation\<close>, before the request is awaited.\<close>

definition runSimulation_begin :: "'n SimulationState \<Rightarrow> 'n SimulationState" where
  "runSimulation_begin prev = prev\<lparr>isRunning := True, error := None\<rparr>"

text \<open>The \<open>setState\<close> of the branch taken once the awaited call has settled.\<close>

definition runSimulation_settle ::
  "TrainInput list \<Rightarrow> 'n outcome \<Rightarrow> 'n SimulationState \<Rightarrow> 'n SimulationState" where
  "runSimulation_settle trs out prev =
     (case out of
        Resolved response \<Rightarrow>
          (if success response then
             prev\<lparr>logs := response_logs response,
                  metrics := response_metrics response,
                  network := response_network response,
                  trains := trs,
                  isRunning := False,
                  currentTime := Num 0\<rparr>
           else
             prev\<lparr>error := Some (or_default (message response) ''Simulation failed''),
                  isRunning := False\<rparr>)
      | Rejected e \<Rightarrow>
          prev\<lparr>error := Some (case e of Some m \<Rightarrow> m | None \<Rightarrow> ''Unknown error occurred''),
               isRunning := False\<rparr>)"

text \<open>
  \<open>runSimulation\<close>: the external solver is the parameter \<open>solver\<close>, from the request
  to the outcome of the awaited call; the result is the session state once the call has
  settled.
\<close>

definition runSimulation ::
  "('n SimulationRequest \<Rightarrow> 'n outcome) \<Rightarrow> TrainInput list \<Rightarrow> string \<Rightarrow> real \<Rightarrow>
   'n SimulationState \<Rightarrow> 'n SimulationState" where
  "runSimulation solver trs priorityRule_arg maxTime_arg s =
     runSimulation_settle trs
       (solver \<lparr>request_trains = trs, network_config = None,
                priority_rule = priorityRule_arg, max_time = maxTime_arg, time_step = 1\<rparr>)
       (runSimulation_begin s)"

definition clearSimulation :: "'n SimulationState \<Rightarrow> 'n SimulationState" where
  "clearSimulation s = initialState"

definition setCurrentTime :: "timeval \<Rightarrow> 'n SimulationState \<Rightarrow> 'n SimulationState" where
  "setCurrentTime t prev = prev\<lparr>currentTime := t\<rparr>"

text \<open>
  The test \<open>Math.abs(log.time - time) < 1\<close> of both queries. The query time is any
  JavaScript number; the subtraction is the rounded one.
\<close>

definition withinWindow :: "SimulationLog \<Rightarrow> jsnum \<Rightarrow> bool" where
  "withinWindow l t = lt64 (abs64 (minus64 (Fin (time l)) t)) (Fin 1)"

definition getTrainAtTime :: "SimulationLog list \<Rightarrow> string \<Rightarrow> jsnum \<Rightarrow> SimulationLog option" where
  "getTrainAtTime ls trainId t =
     (let trainLogs = filter (\<lambda>l. train_id l = trainId) ls;
          logAtTime = find (\<lambda>l. withinWindow l t) trainLogs
      in logAtTime)"

definition getTrainsAtTime :: "SimulationLog list \<Rightarrow> jsnum \<Rightarrow> SimulationLog list" where
  "getTrainsAtTime ls t =
     (let logsAtTime = filter (\<lambda>l. withinWindow l t) ls in logsAtTime)"

section \<open>Playback control (components/simulation/SimulationControl.tsx)\<close>

record SimulationControl =
  isPlaying :: bool
  playbackSpeed :: real
  maxTime :: real
  priorityRule :: string

definition initialControl :: SimulationControl where
  "initialControl =
     \<lparr>isPlaying = False, playbackSpeed = 1, maxTime = 3600, priorityRule = ''priority''\<rparr>"

text \<open>
  \<open>logs.length > 0 ? Math.max(...logs.map(log => log.time)) : 0\<close>; the interval effect
  computes the same maximum under its own guard \<open>logs.length > 0\<close>.
\<close>

definition maxLogTime :: "SimulationLog list \<Rightarrow> real" where
  "maxLogTime ls = (case map time ls of [] \<Rightarrow> 0 | t # ts \<Rightarrow> fold max ts t)"

text \<open>
  The body of the arrow function written at the interval callback: the time it returns
  and whether it calls \<open>setIsPlaying(false)\<close>.
\<close>

definition tickUpdater_body :: "real \<Rightarrow> real \<Rightarrow> real \<Rightarrow> real \<times> bool" where
  "tickUpdater_body speed_c maxLog prev =
     (let nextTime = prev + speed_c * 10
      in if nextTime \<ge> maxLog then (maxLog, True) else (nextTime, False))"

text \<open>
  One firing of the interval installed by the effect. The callback passes the arrow
  function to the context's \<open>setCurrentTime\<close>, which stores its argument in
  \<open>currentTime\<close>; the function is not applied and \<open>setIsPlaying\<close> is not reached.
  The effect's dependencies (\<open>isPlaying\<close>, \<open>logs\<close>, \<open>playbackSpeed\<close>) are
  untouched, so the interval stays installed.
\<close>

definition tick :: "SimulationControl \<Rightarrow> 'n SimulationState \<Rightarrow> SimulationControl \<times> 'n SimulationState" where
  "tick c s =
     (if isPlaying c \<and> length (logs s) > 0 then
        (c, setCurrentTime (TickUpdater (playbackSpeed c) (maxLogTime (logs s))) s)
      else (c, s))"

fun ticks :: "nat \<Rightarrow> SimulationControl \<Rightarrow> 'n SimulationState \<Rightarrow> SimulationControl \<times> 'n SimulationState" where
  "ticks 0 c s = (c, s)"
| "ticks (Suc n) c s = (case tick c s of (c', s') \<Rightarrow> ticks n c' s')"

definition sampleTrains :: "TrainInput list" where
  "sampleTrains =
     [\<lparr>id_input = ''T001'', name_input = ''Express Alpha'', from_station = ''S1'',
       to_station = ''S2'', departure_time = 0, arrival_time = 1800, priority = 1,
       train_type = ''Express'', max_speed = 120, length_input = 200, max_capacity = 500\<rparr>,
      \<lparr>id_input = ''T002'', name_input = ''Local Beta'', from_station = ''S1'',
       to_station = ''S2'', departure_time = 300, arrival_time = 2400, priority = 2,
       train_type = ''Local'', max_speed = 100, length_input = 180, max_capacity = 400\<rparr>]"

definition handlePlay ::
  "('n SimulationRequest \<Rightarrow> 'n outcome) \<Rightarrow> SimulationControl \<Rightarrow> 'n SimulationState \<Rightarrow>
   SimulationControl \<times> 'n SimulationState" where
  "handlePlay solver c s =
     (if length (logs s) = 0 then
        (c, runSimulation solver sampleTrains (priorityRule c) (maxTime c) s)
      else (c\<lparr>isPlaying := True\<rparr>, s))"

definition handlePause :: "SimulationControl \<Rightarrow> 'n SimulationState \<Rightarrow> SimulationControl \<times> 'n SimulationState" where
  "handlePause c s = (c\<lparr>isPlaying := False\<rparr>, s)"

definition handleStop :: "SimulationControl \<Rightarrow> 'n SimulationState \<Rightarrow> SimulationControl \<times> 'n SimulationState" where
  "handleStop c s = (c\<lparr>isPlaying := False\<rparr>, setCurrentTime (Num 0) s)"

definition handleReset :: "SimulationControl \<Rightarrow> 'n SimulationState \<Rightarrow> SimulationControl \<times> 'n SimulationState" where
  "handleReset c s = (c\<lparr>isPlaying := False\<rparr>, clearSimulation (setCurrentTime (Num 0) s))"

text \<open>
  The speed selector: \<open>setPlaybackSpeed(Number(e.target.value))\<close> stores the numeric
  value of the chosen option; the options offered are listed in \<open>speedOptions\<close>.
\<close>

definition setPlaybackSpeed :: "real \<Rightarrow> SimulationControl \<Rightarrow> SimulationControl" where
  "setPlaybackSpeed v c = c\<lparr>playbackSpeed := v\<rparr>"

definition speedOptions :: "real list" where
  "speedOptions = [1 / 2, 1, 2, 5, 10]"

section \<open>Map positions (components/operations/NetworkMap.tsx, types/railway.ts)\<close>

text \<open>
  Of \<open>Station\<close> and \<open>Train\<close> the position effect reads the identifiers, the station
  position and the train's two optional station references; the remaining fields stay in
  the records' extension slot. A position \<open>{x, y}\<close> is a pair.
\<close>

record Station =
  station_id :: string
  station_position :: "real \<times> real"

record Train =
  train_key :: string
  currentStation :: "string option"
  nextStation :: "string option"

text \<open>\<open>Array.prototype.findIndex\<close>: the first index whose element passes, else \<open>-1\<close>.\<close>

fun findIndex :: "('a \<Rightarrow> bool) \<Rightarrow> 'a list \<Rightarrow> int" where
  "findIndex P [] = - 1"
| "findIndex P (x # xs) =
     (if P x then 0 else (let i = findIndex P xs in if i < 0 then - 1 else i + 1))"

text \<open>
  \<open>(Date.now() % 10000) / 10000\<close>, with \<open>Date.now()\<close> a count of milliseconds: the
  remainder of an integer is exact, the quotient is rounded.
\<close>

definition progress_of :: "nat \<Rightarrow> jsnum" where
  "progress_of now = fl64 (real (now mod 10000) / 10000)"

text \<open>
  The two coordinate expressions of the in-transit branch,
  \<open>current + (next - current) * progress\<close>, each operation rounded.
\<close>

definition interpolate :: "real \<times> real \<Rightarrow> real \<times> real \<Rightarrow> jsnum \<Rightarrow> jsnum \<times> jsnum" where
  "interpolate origin destination progress =
     (let x = plus64 (Fin (fst origin))
                (times64 (minus64 (Fin (fst destination)) (Fin (fst origin))) progress);
          y = plus64 (Fin (snd origin))
                (times64 (minus64 (Fin (snd destination)) (Fin (snd origin))) progress)
      in (x, y))"

text \<open>The body of \<open>trains.forEach\<close> for one train, \<open>now\<close> being its clock reading.\<close>

definition moveTrain ::
  "('a Station_scheme) list \<Rightarrow> nat \<Rightarrow> (string \<rightharpoonup> jsnum \<times> jsnum) \<Rightarrow> 'b Train_scheme \<Rightarrow>
   (string \<rightharpoonup> jsnum \<times> jsnum)" where
  "moveTrain stations now newPositions train =
     (let currentStationIndex = findIndex (\<lambda>s. Some (station_id s) = currentStation train) stations;
          nextStationIndex = findIndex (\<lambda>s. Some (station_id s) = nextStation train) stations
      in if currentStationIndex \<ge> 0 \<and> nextStationIndex \<ge> 0 then
           (let currentSt = stations ! nat currentStationIndex;
                nextSt = stations ! nat nextStationIndex;
                progress = progress_of now
            in newPositions(train_key train \<mapsto>
                 interpolate (station_position currentSt) (station_position nextSt) progress))
         else if currentStationIndex \<ge> 0 then
           newPositions(train_key train \<mapsto>
             (case station_position (stations ! nat currentStationIndex) of
                (x, y) \<Rightarrow> (Fin x, Fin y)))
         else newPositions)"

text \<open>The interval callback: every train in order, each paired with its clock reading.\<close>

definition updatePositions ::
  "('a Station_scheme) list \<Rightarrow> ('b Train_scheme \<times> nat) list \<Rightarrow> (string \<rightharpoonup> jsnum \<times> jsnum) \<Rightarrow>
   (string \<rightharpoonup> jsnum \<times> jsnum)" where
  "updatePositions stations timed prev =
     fold (\<lambda>(train, now) newPositions. moveTrain stations now newPositions train) timed prev"

section \<open>Reference readings of the specification\<close>

text \<open>
  The query of the specification, written from its words to be compared with
  \<open>getTrainAtTime\<close>: among the entries of the train within \<open>tolerance\<close> of \<open>t\<close>,
  the one nearest to \<open>t\<close>, a later entry replacing an earlier one at equal distance.
\<close>

definition atTime_spec :: "SimulationLog list \<Rightarrow> string \<Rightarrow> real \<Rightarrow> real \<Rightarrow> SimulationLog option" where
  "atTime_spec ls trainId t tolerance =
     fold (\<lambda>log best.
             if train_id log = trainId \<and> \<bar>time log - t\<bar> \<le> tolerance \<and>
                (case best of None \<Rightarrow> True | Some b \<Rightarrow> \<bar>time log - t\<bar> \<le> \<bar>time b - t\<bar>)
             then Some log else best)
          ls None"

text \<open>Entries of one train lie at least two time units apart, whatever their order.\<close>

fun spaced_per_train :: "SimulationLog list \<Rightarrow> bool" where
  "spaced_per_train [] = True"
| "spaced_per_train (x # xs) =
     ((\<forall>y \<in> set xs. train_id y = train_id x \<longrightarrow> 2 \<le> \<bar>time x - time y\<bar>) \<and> spaced_per_train xs)"

section \<open>Sample data\<close>

definition entry :: "real \<Rightarrow> string \<Rightarrow> string \<Rightarrow> SimulationLog" where
  "entry t tid st =
     \<lparr>time = t, train_id = tid, current_block = None, current_station = Some st,
      status = ''moving'', delay = 0, speed = 0, position = None\<rparr>"

definition sampleLogs :: "SimulationLog list" where
  "sampleLogs = [entry 0 ''T001'' ''S1'', entry 1800 ''T001'' ''S2'']"

definition sampleSolver :: "unit SimulationRequest \<Rightarrow> unit outcome" where
  "sampleSolver req =
     Resolved \<lparr>success = True, response_logs = sampleLogs, response_metrics = None,
               response_network = None, message = None\<rparr>"

definition failingSolver :: "unit SimulationRequest \<Rightarrow> unit outcome" where
  "failingSolver req = Rejected (Some ''Network Error'')"

definition installedState :: "unit SimulationState" where
  "installedState = initialState\<lparr>logs := sampleLogs\<rparr>"

definition playingControl :: SimulationControl where
  "playingControl = initialControl\<lparr>isPlaying := True\<rparr>"

definition sampleStations :: "Station list" where
  "sampleStations =
     [\<lparr>station_id = ''S1'', station_position = (0, 0)\<rparr>,
      \<lparr>station_id = ''S2'', station_position = (10, 0)\<rparr>]"

definition sampleTrain :: Train where
  "sampleTrain = \<lparr>train_key = ''T001'', currentStation = Some ''S1'', nextStation = Some ''S2''\<rparr>"

text \<open>A run fails when the solver answers \<open>success = false\<close> or the call throws.\<close>

fun failed :: "'n outcome \<Rightarrow> bool" where
  "failed (Resolved response) = (\<not> success response)"
| "failed (Rejected e) = True"

section \<open>Rounding and the window test\<close>

text \<open>
  Rounding never carries a magnitude of 1 or more below 1: the exponent found for
  \<open>x \<ge> 1\<close> satisfies \<open>2 powi e \<le> x\<close>, so the rounded significand is at least
  \<open>2 ^ 52\<close>. Hence a difference that passes the test \<open>< 1\<close> after rounding is
  below 1 before it.
\<close>

lemma expo_up_nonneg: "0 \<le> expo_up n x"
  by (induction n arbitrary: x) auto

lemma expo_up_le: "1 \<le> x \<Longrightarrow> 2 powi (expo_up n x) \<le> x"
proof (induction n arbitrary: x)
  case 0
  then show ?case by simp
next
  case (Suc n)
  show ?case
  proof (cases "x < 2")
    case True
    with Suc.prems show ?thesis by simp
  next
    case False
    then have "1 \<le> x / 2" by simp
    then have "2 powi (expo_up n (x / 2)) \<le> x / 2" by (rule Suc.IH)
    moreover have "(2::real) powi (1 + expo_up n (x / 2)) = 2 * 2 powi (expo_up n (x / 2))"
      by (simp add: power_int_add)
    ultimately show ?thesis using False by simp
  qed
qed

lemma round_half_even_ge: "of_int m \<le> y \<Longrightarrow> m \<le> round_half_even y"
proof -
  assume "of_int m \<le> y"
  then have "m \<le> \<lfloor>y\<rfloor>" by (simp add: le_floor_iff)
  then show ?thesis by (auto simp: round_half_even_def Let_def)
qed

lemma round_half_even_le: "y \<le> of_int m \<Longrightarrow> round_half_even y \<le> m"
proof -
  assume a: "y \<le> of_int m"
  then have f: "\<lfloor>y\<rfloor> \<le> m" by (simp add: floor_le_iff)
  show ?thesis
  proof (cases "y = of_int \<lfloor>y\<rfloor>")
    case True
    then have "y - of_int \<lfloor>y\<rfloor> < 1 / 2" by simp
    with f show ?thesis by (simp add: round_half_even_def Let_def)
  next
    case False
    then have "of_int \<lfloor>y\<rfloor> < y" using of_int_floor_le [of y] by linarith
    with a have "of_int \<lfloor>y\<rfloor> < (of_int m :: real)" by linarith
    then have "\<lfloor>y\<rfloor> < m" by simp
    then show ?thesis by (auto simp: round_half_even_def Let_def)
  qed
qed

lemma round64_ge_one:
  assumes "1 \<le> x"
  shows "1 \<le> round64 x"
proof -
  let ?e = "expo_up 1023 x"
  let ?u = "(2::real) powi (?e - 52)"
  from assms have u: "ulp64 x = ?u" by (simp add: ulp64_def exponent64_def)
  have upos: "0 < ?u" by (simp add: zero_less_power_int)
  have e0: "0 \<le> ?e" by (rule expo_up_nonneg)
  have le: "2 powi ?e \<le> x" using assms by (rule expo_up_le)
  have split: "(2::real) powi ?e = 2 powi 52 * ?u"
    using power_int_add [of "2::real" 52 "?e - 52"] by simp
  have p52: "(2::real) powi 52 = of_int (2 ^ 52)" by simp
  then have "of_int (2 ^ 52) * ?u \<le> x" using le split by simp
  then have "of_int (2 ^ 52) \<le> x / ?u" using upos by (simp add: pos_le_divide_eq)
  then have "2 ^ 52 \<le> round_half_even (x / ?u)" by (rule round_half_even_ge)
  then have "(of_int (2 ^ 52) :: real) \<le> of_int (round_half_even (x / ?u))"
    by (simp only: of_int_le_iff)
  then have "of_int (2 ^ 52) * ?u \<le> of_int (round_half_even (x / ?u)) * ?u"
    using upos by (simp only: mult_le_cancel_right_pos)
  then have "2 powi 52 * ?u \<le> of_int (round_half_even (x / ?u)) * ?u"
    by (simp only: p52)
  then have "2 powi ?e \<le> of_int (round_half_even (x / ?u)) * ?u"
    by (simp only: split)
  moreover have "1 \<le> (2::real) powi ?e" using e0 by (simp add: one_le_power_int)
  ultimately have "1 \<le> of_int (round_half_even (x / ?u)) * ?u" by (rule order_trans [rotated])
  then show ?thesis by (simp only: round64_def u)
qed

lemma round64_le_minus_one:
  assumes "x \<le> - 1"
  shows "round64 x \<le> - 1"
proof -
  let ?e = "expo_up 1023 (- x)"
  let ?u = "(2::real) powi (?e - 52)"
  from assms have u: "ulp64 x = ?u" by (simp add: ulp64_def exponent64_def abs_if)
  have upos: "0 < ?u" by (simp add: zero_less_power_int)
  have e0: "0 \<le> ?e" by (rule expo_up_nonneg)
  have le: "2 powi ?e \<le> - x" using assms by (intro expo_up_le) simp
  have split: "(2::real) powi ?e = 2 powi 52 * ?u"
    using power_int_add [of "2::real" 52 "?e - 52"] by simp
  have p52: "(2::real) powi 52 = of_int (2 ^ 52)" by simp
  then have "x \<le> of_int (- (2 ^ 52)) * ?u" using le split by simp
  then have "x / ?u \<le> of_int (- (2 ^ 52))" using upos by (simp add: pos_divide_le_eq)
  then have "round_half_even (x / ?u) \<le> - (2 ^ 52)" by (rule round_half_even_le)
  then have "(of_int (round_half_even (x / ?u)) :: real) \<le> of_int (- (2 ^ 52))"
    by (simp only: of_int_le_iff)
  then have "of_int (round_half_even (x / ?u)) * ?u \<le> of_int (- (2 ^ 52)) * ?u"
    using upos by (simp only: mult_le_cancel_right_pos)
  moreover have "of_int (- (2 ^ 52)) * ?u = - (2 powi ?e)"
    by (simp only: split p52 of_int_minus mult_minus_left)
  ultimately have "of_int (round_half_even (x / ?u)) * ?u \<le> - (2 powi ?e)" by simp
  moreover have "1 \<le> (2::real) powi ?e" using e0 by (simp add: one_le_power_int)
  ultimately have "of_int (round_half_even (x / ?u)) * ?u \<le> - 1" by linarith
  then show ?thesis by (simp only: round64_def u)
qed

lemma fl64_small: "lt64 (abs64 (fl64 x)) (Fin 1) \<Longrightarrow> \<bar>x\<bar> < 1"
proof (rule ccontr)
  assume t: "lt64 (abs64 (fl64 x)) (Fin 1)" and n: "\<not> \<bar>x\<bar> < 1"
  show False
  proof (cases "2 ^ 1024 - 2 ^ 970 \<le> \<bar>x\<bar>")
    case True
    with t show False by (simp add: fl64_def split: if_splits)
  next
    case False
    with t have r: "\<bar>round64 x\<bar> < 1" by (simp add: fl64_def)
    from n have "1 \<le> x \<or> x \<le> - 1" by linarith
    then show False
    proof
      assume "1 \<le> x"
      then have "1 \<le> round64 x" by (rule round64_ge_one)
      with r show False by linarith
    next
      assume "x \<le> - 1"
      then have "round64 x \<le> - 1" by (rule round64_le_minus_one)
      with r show False by linarith
    qed
  qed
qed

lemmas fl64_eval =
  fl64_def round64_def ulp64_def exponent64_def round_half_even_def eval_nat_numeral

lemma withinWindow_sound:
  "withinWindow l t \<Longrightarrow> \<exists>T. t = Fin T \<and> \<bar>time l - T\<bar> < 1"
proof (cases t)
  case (Fin T)
  assume "withinWindow l t"
  with Fin have "lt64 (abs64 (fl64 (time l + - T))) (Fin 1)"
    by (simp add: withinWindow_def minus64_def)
  then have "\<bar>time l + - T\<bar> < 1" by (rule fl64_small)
  with Fin show ?thesis by simp
qed (simp_all add: withinWindow_def minus64_def)

lemma find_filter: "find P (filter Q xs) = find (\<lambda>x. Q x \<and> P x) xs"
  by (induction xs) auto

lemma getTrainAtTime_find:
  "getTrainAtTime ls trainId t = find (\<lambda>log. train_id log = trainId \<and> withinWindow log t) ls"
  by (simp add: getTrainAtTime_def find_filter)

text \<open>The test at the sample times used below; all these differences are exact.\<close>

lemma window_0_half: "withinWindow (entry 0 tid st) (Fin (1 / 2))"
  by (simp add: withinWindow_def minus64_def entry_def fl64_eval)
lemma window_1_half: "withinWindow (entry 1 tid st) (Fin (1 / 2))"
  by (simp add: withinWindow_def minus64_def entry_def fl64_eval)
lemma window_0_3q: "withinWindow (entry 0 tid st) (Fin (3 / 4))"
  by (simp add: withinWindow_def minus64_def entry_def fl64_eval)
lemma window_1_3q: "withinWindow (entry 1 tid st) (Fin (3 / 4))"
  by (simp add: withinWindow_def minus64_def entry_def fl64_eval)
lemma window_2_half: "\<not> withinWindow (entry 2 tid st) (Fin (1 / 2))"
  by (simp add: withinWindow_def minus64_def entry_def fl64_eval)
lemma window_5_9h: "withinWindow (entry 5 tid st) (Fin (9 / 2))"
  by (simp add: withinWindow_def minus64_def entry_def fl64_eval)
lemma window_0_9h: "\<not> withinWindow (entry 0 tid st) (Fin (9 / 2))"
  by (simp add: withinWindow_def minus64_def entry_def fl64_eval)

text \<open>
  At the query time \<open>2 ^ -54\<close> an entry at time 1 is less than 1 away, but the
  difference rounds to 1 and the test fails; the entry at time 1/2 passes.
\<close>

lemma window_edge_1: "\<not> withinWindow (entry 1 tid st) (Fin (1 / 2 ^ 54))"
  by (simp add: withinWindow_def minus64_def entry_def fl64_eval)
lemma window_edge_half: "withinWindow (entry (1 / 2) tid st) (Fin (1 / 2 ^ 54))"
  by (simp add: withinWindow_def minus64_def entry_def fl64_eval)

section \<open>Point-in-time queries\<close>

lemma getTrainAtTime_sound:
  "getTrainAtTime ls trainId t = Some e \<Longrightarrow>
   e \<in> set ls \<and> train_id e = trainId \<and> (\<exists>T. t = Fin T \<and> \<bar>time e - T\<bar> < 1)"
  unfolding getTrainAtTime_find
  by (auto simp add: find_Some_iff dest: withinWindow_sound)

text \<open>
  C1. As stated (the entry nearest to the query time within the tolerance, the later
  entry at equal distance) the property fails. What holds: \<open>getTrainAtTime\<close> returns the
  earliest-ingested entry of the train that passes the window test of the code,
  \<open>Math.abs(log.time - time) < 1\<close> with its rounded subtraction, whether or not a
  later entry is nearer or equally near; the query time is then finite and the entry
  returned is strictly less than 1 away from it.
\<close>

theorem getTrainAtTime_first_match:
  "(getTrainAtTime ls trainId t = Some e) =
     (\<exists>i < length ls. ls ! i = e \<and> train_id e = trainId \<and> withinWindow e t \<and>
        (\<forall>j < i. \<not> (train_id (ls ! j) = trainId \<and> withinWindow (ls ! j) t))) \<and>
   (getTrainAtTime ls trainId t = Some e \<longrightarrow> (\<exists>T. t = Fin T \<and> \<bar>time e - T\<bar> < 1))"
proof -
  have "(getTrainAtTime ls trainId t = Some e) =
     (\<exists>i < length ls. ls ! i = e \<and> train_id e = trainId \<and> withinWindow e t \<and>
        (\<forall>j < i. \<not> (train_id (ls ! j) = trainId \<and> withinWindow (ls ! j) t)))"
    unfolding getTrainAtTime_find find_Some_iff by auto
  then show ?thesis using getTrainAtTime_sound [of ls trainId t e] by blast
qed

theorem getTrainAtTime_first_match_witness:
  "getTrainAtTime [entry 0 ''T001'' ''S1'', entry 1 ''T001'' ''S2''] ''T001'' (Fin (1 / 2))
     = Some (entry 0 ''T001'' ''S1'') \<and>
   (\<exists>i < length [entry 0 ''T001'' ''S1'', entry 1 ''T001'' ''S2''].
      [entry 0 ''T001'' ''S1'', entry 1 ''T001'' ''S2''] ! i = entry 0 ''T001'' ''S1'') \<and>
   (\<exists>T. Fin (1 / 2) = Fin T \<and> \<bar>time (entry 0 ''T001'' ''S1'') - T\<bar> < 1)"
proof -
  have g: "getTrainAtTime [entry 0 ''T001'' ''S1'', entry 1 ''T001'' ''S2''] ''T001'' (Fin (1 / 2))
     = Some (entry 0 ''T001'' ''S1'')"
    by (simp add: getTrainAtTime_def window_0_half) (simp add: entry_def)
  from getTrainAtTime_first_match
    [of "[entry 0 ''T001'' ''S1'', entry 1 ''T001'' ''S2'']" "''T001''" "Fin (1 / 2)"
        "entry 0 ''T001'' ''S1''"] g
  show ?thesis by blast
qed

text \<open>
  With entries at times 0 and 1 for one train: at query time 1/2 both are at distance
  1/2 and the earlier one is returned; at query time 3/4 the entry at time 1 is nearer
  and the entry at time 0 is returned.
\<close>

theorem getTrainAtTime_not_nearest_counterexample:
  "getTrainAtTime [entry 0 ''T001'' ''S1'', entry 1 ''T001'' ''S2''] ''T001'' (Fin (1 / 2))
     = Some (entry 0 ''T001'' ''S1'') \<and>
   atTime_spec [entry 0 ''T001'' ''S1'', entry 1 ''T001'' ''S2''] ''T001'' (1 / 2) 1
     = Some (entry 1 ''T001'' ''S2'') \<and>
   entry 0 ''T001'' ''S1'' \<noteq> entry 1 ''T001'' ''S2'' \<and>
   \<bar>time (entry 0 ''T001'' ''S1'') - 1 / 2\<bar> = \<bar>time (entry 1 ''T001'' ''S2'') - 1 / 2\<bar> \<and>
   getTrainAtTime [entry 0 ''T001'' ''S1'', entry 1 ''T001'' ''S2''] ''T001'' (Fin (3 / 4))
     = Some (entry 0 ''T001'' ''S1'') \<and>
   atTime_spec [entry 0 ''T001'' ''S1'', entry 1 ''T001'' ''S2''] ''T001'' (3 / 4) 1
     = Some (entry 1 ''T001'' ''S2'') \<and>
   \<bar>time (entry 1 ''T001'' ''S2'') - 3 / 4\<bar> < \<bar>time (entry 0 ''T001'' ''S1'') - 3 / 4\<bar>"
proof -
  have 1: "getTrainAtTime [entry 0 ''T001'' ''S1'', entry 1 ''T001'' ''S2''] ''T001'' (Fin (1 / 2))
     = Some (entry 0 ''T001'' ''S1'')"
    by (simp add: getTrainAtTime_def window_0_half) (simp add: entry_def)
  have 2: "getTrainAtTime [entry 0 ''T001'' ''S1'', entry 1 ''T001'' ''S2''] ''T001'' (Fin (3 / 4))
     = Some (entry 0 ''T001'' ''S1'')"
    by (simp add: getTrainAtTime_def window_0_3q) (simp add: entry_def)
  show ?thesis unfolding 1 2 by (simp add: atTime_spec_def entry_def)
qed

text \<open>The rounding edge: the entry at time 1 is skipped at query time \<open>2 ^ -54\<close>.\<close>

lemma getTrainAtTime_rounding_edge:
  "getTrainAtTime [entry 1 ''T001'' ''S1'', entry (1 / 2) ''T001'' ''S2''] ''T001'' (Fin (1 / 2 ^ 54))
     = Some (entry (1 / 2) ''T001'' ''S2'')"
  using window_edge_1 [of "''T001''" "''S1''"] window_edge_half [of "''T001''" "''S2''"]
  by (simp add: getTrainAtTime_def entry_def)

lemma spaced_distinct:
  "spaced_per_train ls \<Longrightarrow> distinct (map train_id (filter (\<lambda>l. withinWindow l t) ls))"
proof (induction ls)
  case Nil
  then show ?case by simp
next
  case (Cons x xs)
  have far: "\<not> withinWindow y t"
    if "y \<in> set xs" "train_id y = train_id x" "withinWindow x t" for y
  proof
    assume "withinWindow y t"
    then obtain T where "t = Fin T" and y: "\<bar>time y - T\<bar> < 1"
      using withinWindow_sound by blast
    with that(3) have x: "\<bar>time x - T\<bar> < 1" using withinWindow_sound [of x t] by auto
    from that Cons.prems have "2 \<le> \<bar>time x - time y\<bar>" by simp
    with x y show False by linarith
  qed
  from Cons show ?case using far by (auto simp: image_iff)
qed

text \<open>
  C2. As stated (never two entries of one train in a result) the property fails.
  What holds: \<open>getTrainsAtTime\<close> returns, in ingestion order, the entries that pass the
  window test of the code; each of them is strictly less than 1 away from the query
  time, which is finite when anything is returned; for each train the first entry of the
  result carrying its id is the entry \<open>getTrainAtTime\<close> returns; and the result holds at
  most one entry per train when the entries of each train lie at least two time units
  apart.
\<close>

theorem getTrainsAtTime_per_train:
  "getTrainsAtTime ls t = filter (\<lambda>l. withinWindow l t) ls \<and>
   (\<forall>e \<in> set (getTrainsAtTime ls t). e \<in> set ls \<and> (\<exists>T. t = Fin T \<and> \<bar>time e - T\<bar> < 1)) \<and>
   find (\<lambda>l. train_id l = trainId) (getTrainsAtTime ls t) = getTrainAtTime ls trainId t \<and>
   (spaced_per_train ls \<longrightarrow> distinct (map train_id (getTrainsAtTime ls t)))"
  unfolding getTrainsAtTime_def getTrainAtTime_find
  by (auto simp add: find_filter spaced_distinct conj_commute dest: withinWindow_sound)

theorem getTrainsAtTime_per_train_witness:
  "spaced_per_train [entry 0 ''T001'' ''S1'', entry 0 ''T002'' ''S1'', entry 2 ''T001'' ''S2''] \<and>
   distinct (map train_id
     (getTrainsAtTime [entry 0 ''T001'' ''S1'', entry 0 ''T002'' ''S1'', entry 2 ''T001'' ''S2'']
        (Fin (1 / 2)))) \<and>
   getTrainsAtTime [entry 0 ''T001'' ''S1'', entry 0 ''T002'' ''S1'', entry 2 ''T001'' ''S2'']
        (Fin (1 / 2))
     = [entry 0 ''T001'' ''S1'', entry 0 ''T002'' ''S1''] \<and>
   find (\<lambda>l. train_id l = ''T001'')
     (getTrainsAtTime [entry 0 ''T001'' ''S1'', entry 0 ''T002'' ''S1'', entry 2 ''T001'' ''S2'']
        (Fin (1 / 2)))
     = getTrainAtTime [entry 0 ''T001'' ''S1'', entry 0 ''T002'' ''S1'', entry 2 ''T001'' ''S2'']
         ''T001'' (Fin (1 / 2))"
proof -
  have s: "spaced_per_train
      [entry 0 ''T001'' ''S1'', entry 0 ''T002'' ''S1'', entry 2 ''T001'' ''S2'']"
    by (simp add: entry_def)
  have g: "getTrainsAtTime [entry 0 ''T001'' ''S1'', entry 0 ''T002'' ''S1'', entry 2 ''T001'' ''S2'']
        (Fin (1 / 2)) = [entry 0 ''T001'' ''S1'', entry 0 ''T002'' ''S1'']"
    by (simp add: getTrainsAtTime_def window_0_half window_2_half)
  from getTrainsAtTime_per_train
    [where trainId = "''T001''" and t = "Fin (1 / 2)"
       and ls = "[entry 0 ''T001'' ''S1'', entry 0 ''T002'' ''S1'', entry 2 ''T001'' ''S2'']"] s g
  show ?thesis by blast
qed

text \<open>A log sampled every time unit, queried half-way between two samples.\<close>

theorem getTrainsAtTime_two_entries_counterexample:
  "getTrainsAtTime [entry 0 ''T001'' ''S1'', entry 1 ''T001'' ''S2''] (Fin (1 / 2))
     = [entry 0 ''T001'' ''S1'', entry 1 ''T001'' ''S2''] \<and>
   \<not> distinct (map train_id
        (getTrainsAtTime [entry 0 ''T001'' ''S1'', entry 1 ''T001'' ''S2''] (Fin (1 / 2))))"
proof -
  have g: "getTrainsAtTime [entry 0 ''T001'' ''S1'', entry 1 ''T001'' ''S2''] (Fin (1 / 2))
     = [entry 0 ''T001'' ''S1'', entry 1 ''T001'' ''S2'']"
    by (simp add: getTrainsAtTime_def window_0_half window_1_half)
  show ?thesis unfolding g by (simp add: entry_def)
qed

text \<open>
  C7. As stated (a caller-supplied tolerance) the property fails: the query has no
  tolerance parameter. What holds, with the window of 1 time unit written in the code:
  \<open>getTrainAtTime\<close> returns an entry only if some entry of the train is at most 1 away
  from the query time, and returns none otherwise; the entry returned is an entry of the
  train strictly less than 1 away, and a query time that is not finite returns none.
\<close>

theorem getTrainAtTime_window:
  "(getTrainAtTime ls trainId (Fin T) \<noteq> None \<longrightarrow>
      (\<exists>l \<in> set ls. train_id l = trainId \<and> \<bar>time l - T\<bar> \<le> 1)) \<and>
   (\<not> (\<exists>l \<in> set ls. train_id l = trainId \<and> \<bar>time l - T\<bar> \<le> 1) \<longrightarrow>
      getTrainAtTime ls trainId (Fin T) = None) \<and>
   (getTrainAtTime ls trainId (Fin T) = Some e \<longrightarrow>
      e \<in> set ls \<and> train_id e = trainId \<and> \<bar>time e - T\<bar> < 1) \<and>
   (t = PosInf \<or> t = NegInf \<or> t = NaN \<longrightarrow> getTrainAtTime ls trainId t = None)"
proof -
  have s: "e' \<in> set ls \<and> train_id e' = trainId \<and> \<bar>time e' - T\<bar> < 1"
    if "getTrainAtTime ls trainId (Fin T) = Some e'" for e'
    using getTrainAtTime_sound [OF that] by simp
  have i: "getTrainAtTime ls trainId t = None" if "t = PosInf \<or> t = NegInf \<or> t = NaN"
  proof (cases "getTrainAtTime ls trainId t")
    case None
    then show ?thesis .
  next
    case (Some e')
    from getTrainAtTime_sound [OF this] that show ?thesis by auto
  qed
  have "\<exists>l \<in> set ls. train_id l = trainId \<and> \<bar>time l - T\<bar> \<le> 1"
    if "getTrainAtTime ls trainId (Fin T) \<noteq> None"
  proof -
    from that obtain e' where "getTrainAtTime ls trainId (Fin T) = Some e'" by auto
    from s [OF this] show ?thesis by (intro bexI [of _ e']) auto
  qed
  with s [of e] i show ?thesis by blast
qed

theorem getTrainAtTime_window_witness:
  "getTrainAtTime [entry 0 ''T001'' ''S1'', entry 5 ''T001'' ''S2''] ''T001'' (Fin (9 / 2))
     = Some (entry 5 ''T001'' ''S2'') \<and>
   (\<exists>l \<in> set [entry 0 ''T001'' ''S1'', entry 5 ''T001'' ''S2''].
      train_id l = ''T001'' \<and> \<bar>time l - 9 / 2\<bar> \<le> 1) \<and>
   \<bar>time (entry 5 ''T001'' ''S2'') - 9 / 2\<bar> < 1 \<and>
   \<not> (\<exists>l \<in> set [entry 0 ''T001'' ''S1'']. train_id l = ''T001'' \<and> \<bar>time l - 9 / 2\<bar> \<le> 1) \<and>
   getTrainAtTime [entry 0 ''T001'' ''S1''] ''T001'' (Fin (9 / 2)) = None \<and>
   getTrainAtTime [entry 0 ''T001'' ''S1''] ''T001'' NaN = None"
proof -
  have g: "getTrainAtTime [entry 0 ''T001'' ''S1'', entry 5 ''T001'' ''S2''] ''T001'' (Fin (9 / 2))
     = Some (entry 5 ''T001'' ''S2'')"
    by (simp add: getTrainAtTime_def window_0_9h window_5_9h) (simp add: entry_def)
  have n: "\<not> (\<exists>l \<in> set [entry 0 ''T001'' ''S1'']. train_id l = ''T001'' \<and> \<bar>time l - 9 / 2\<bar> \<le> 1)"
    by (simp add: entry_def)
  note a = getTrainAtTime_window
    [where ls = "[entry 0 ''T001'' ''S1'', entry 5 ''T001'' ''S2'']" and trainId = "''T001''"
       and T = "9 / 2" and e = "entry 5 ''T001'' ''S2''" and t = NaN]
  note b = getTrainAtTime_window
    [where ls = "[entry 0 ''T001'' ''S1'']" and trainId = "''T001''" and T = "9 / 2" and t = NaN]
  from a g have 1: "(\<exists>l \<in> set [entry 0 ''T001'' ''S1'', entry 5 ''T001'' ''S2''].
      train_id l = ''T001'' \<and> \<bar>time l - 9 / 2\<bar> \<le> 1) \<and>
      \<bar>time (entry 5 ''T001'' ''S2'') - 9 / 2\<bar> < 1"
    by simp
  from b n have 2: "getTrainAtTime [entry 0 ''T001'' ''S1''] ''T001'' (Fin (9 / 2)) = None"
    by blast
  from b have 3: "getTrainAtTime [entry 0 ''T001'' ''S1''] ''T001'' NaN = None"
    by blast
  from g 1 n 2 3 show ?thesis by blast
qed

text \<open>A caller meaning a tolerance of 1/2 still receives an entry 3/4 away.\<close>

theorem getTrainAtTime_window_counterexample:
  "getTrainAtTime [entry 0 ''T001'' ''S1''] ''T001'' (Fin (3 / 4)) = Some (entry 0 ''T001'' ''S1'') \<and>
   \<not> \<bar>time (entry 0 ''T001'' ''S1'') - 3 / 4\<bar> \<le> 1 / 2 \<and>
   atTime_spec [entry 0 ''T001'' ''S1''] ''T001'' (3 / 4) (1 / 2) = None"
proof -
  have g: "getTrainAtTime [entry 0 ''T001'' ''S1''] ''T001'' (Fin (3 / 4)) = Some (entry 0 ''T001'' ''S1'')"
    by (simp add: getTrainAtTime_def window_0_3q) (simp add: entry_def)
  show ?thesis unfolding g by (simp add: atTime_spec_def entry_def)
qed

section \<open>Running a simulation\<close>

text \<open>
  C4. When the run fails (the solver answers \<open>success = false\<close>, or the call throws),
  the state after \<open>runSimulation\<close> is the prior state with only a failure reason stored
  in \<open>error\<close> and \<open>isRunning\<close> reset: logs, metrics, network, current time and
  trains are the prior ones.
\<close>

theorem runSimulation_failure_preserves:
  assumes "failed (solver \<lparr>request_trains = trs, network_config = None,
                          priority_rule = pr, max_time = mt, time_step = 1\<rparr>)"
  shows "logs (runSimulation solver trs pr mt s) = logs s \<and>
         metrics (runSimulation solver trs pr mt s) = metrics s \<and>
         network (runSimulation solver trs pr mt s) = network s \<and>
         currentTime (runSimulation solver trs pr mt s) = currentTime s \<and>
         trains (runSimulation solver trs pr mt s) = trains s \<and>
         (\<exists>reason. runSimulation solver trs pr mt s
                     = s\<lparr>error := Some reason, isRunning := False\<rparr>)"
  using assms
  by (cases "solver \<lparr>request_trains = trs, network_config = None,
                          priority_rule = pr, max_time = mt, time_step = 1\<rparr>")
     (auto simp: runSimulation_def runSimulation_settle_def runSimulation_begin_def)

theorem runSimulation_failure_preserves_witness:
  "failed (failingSolver \<lparr>request_trains = sampleTrains, network_config = None,
                          priority_rule = ''priority'', max_time = 3600, time_step = 1\<rparr>) \<and>
   logs (runSimulation failingSolver sampleTrains ''priority'' 3600 installedState) = sampleLogs \<and>
   (\<exists>reason. runSimulation failingSolver sampleTrains ''priority'' 3600 installedState
     = installedState\<lparr>error := Some reason, isRunning := False\<rparr>)"
proof -
  have f: "failed (failingSolver \<lparr>request_trains = sampleTrains, network_config = None,
                          priority_rule = ''priority'', max_time = 3600, time_step = 1\<rparr>)"
    by (simp add: failingSolver_def)
  have l: "logs installedState = sampleLogs"
    by (simp add: installedState_def)
  from runSimulation_failure_preserves
         [of failingSolver sampleTrains "''priority''" 3600 installedState] f l
  show ?thesis by simp
qed

section \<open>The playback controls\<close>

text \<open>
  C3. As stated (play on an empty log is rejected with a signal) the property fails.
  What holds: with an empty log \<open>handlePlay\<close> leaves the control state, and so
  \<open>isPlaying\<close>, as it was, and starts a run of the built-in sample trains with the
  current priority rule and maximum time; when the solver succeeds, \<open>error\<close> is empty
  and the solver's log is installed.
\<close>

theorem handlePlay_empty_log:
  assumes "logs s = []"
  shows "fst (handlePlay solver c s) = c \<and>
         snd (handlePlay solver c s)
           = runSimulation solver sampleTrains (priorityRule c) (maxTime c) s \<and>
         (\<forall>response.
            solver \<lparr>request_trains = sampleTrains, network_config = None,
                    priority_rule = priorityRule c, max_time = maxTime c, time_step = 1\<rparr>
              = Resolved response \<and> success response \<longrightarrow>
            error (snd (handlePlay solver c s)) = None \<and>
            logs (snd (handlePlay solver c s)) = response_logs response)"
  using assms
  by (simp add: handlePlay_def runSimulation_def runSimulation_settle_def runSimulation_begin_def)

theorem handlePlay_empty_log_witness:
  "logs (initialState :: unit SimulationState) = [] \<and>
   fst (handlePlay sampleSolver initialControl initialState) = initialControl \<and>
   \<not> isPlaying initialControl \<and>
   error (snd (handlePlay sampleSolver initialControl initialState)) = None \<and>
   logs (snd (handlePlay sampleSolver initialControl initialState)) = sampleLogs"
proof -
  let ?response = "\<lparr>success = True, response_logs = sampleLogs, response_metrics = None,
                    response_network = (None :: unit option), message = None\<rparr>"
  have e: "logs (initialState :: unit SimulationState) = []" by (simp add: initialState_def)
  have r: "sampleSolver \<lparr>request_trains = sampleTrains, network_config = None,
             priority_rule = priorityRule initialControl, max_time = maxTime initialControl,
             time_step = 1\<rparr> = Resolved ?response \<and> success ?response"
    by (simp add: sampleSolver_def)
  note h = handlePlay_empty_log [OF e, of sampleSolver initialControl]
  from h have 1: "fst (handlePlay sampleSolver initialControl initialState) = initialControl"
    by blast
  from h r have 2: "error (snd (handlePlay sampleSolver initialControl initialState)) = None \<and>
      logs (snd (handlePlay sampleSolver initialControl initialState)) = response_logs ?response"
    by blast
  have 3: "\<not> isPlaying initialControl" by (simp add: initialControl_def)
  from e 1 2 3 show ?thesis by simp
qed

text \<open>
  On the empty initial session no signal is raised: \<open>error\<close> is empty while the run is
  pending and after it, and the sample run's log is installed.
\<close>

theorem handlePlay_not_rejected_counterexample:
  "logs (initialState :: unit SimulationState) = [] \<and>
   error (runSimulation_begin (initialState :: unit SimulationState)) = None \<and>
   \<not> (error (snd (handlePlay sampleSolver initialControl initialState)) \<noteq> None) \<and>
   logs (snd (handlePlay sampleSolver initialControl initialState)) = sampleLogs"
  by (simp add: handlePlay_def runSimulation_def runSimulation_settle_def runSimulation_begin_def
      initialState_def sampleSolver_def)

lemma ticks_playing:
  "isPlaying c \<Longrightarrow> logs s \<noteq> [] \<Longrightarrow>
   ticks (Suc n) c s = (c, s\<lparr>currentTime := TickUpdater (playbackSpeed c) (maxLogTime (logs s))\<rparr>)"
  by (induction n arbitrary: s) (simp_all add: tick_def setCurrentTime_def)

text \<open>
  C5. The code at a playing session whose log ends at time 1800, speed 1, current time 0.
  One tick leaves the arrow function in \<open>currentTime\<close>, not the number 10, and the
  control still playing; 180 ticks, which would reach the end of the log, leave the same
  state: the time is never set to 1800 and playback is never paused. The function itself,
  had it been applied, would advance by 10 and clamp at 1800 while pausing.
\<close>

theorem tick_stores_closure:
  "tick playingControl installedState
     = (playingControl, installedState\<lparr>currentTime := TickUpdater 1 1800\<rparr>) \<and>
   ticks 180 playingControl installedState
     = (playingControl, installedState\<lparr>currentTime := TickUpdater 1 1800\<rparr>) \<and>
   isPlaying playingControl \<and> currentTime installedState = Num 0 \<and>
   tickUpdater_body 1 1800 0 = (10, False) \<and> tickUpdater_body 1 1800 1790 = (1800, True)"
proof -
  have p: "isPlaying playingControl" by (simp add: playingControl_def initialControl_def)
  have l: "logs installedState \<noteq> []"
    by (simp add: installedState_def sampleLogs_def)
  have m: "maxLogTime (logs installedState) = 1800"
    by (simp add: maxLogTime_def installedState_def sampleLogs_def entry_def)
  have s: "playbackSpeed playingControl = 1" by (simp add: playingControl_def initialControl_def)
  have z: "currentTime installedState = Num 0" by (simp add: installedState_def initialState_def)
  have "ticks (Suc 179) playingControl installedState
     = (playingControl, installedState\<lparr>currentTime := TickUpdater 1 1800\<rparr>)"
    using ticks_playing [OF p l, of 179] by (simp add: m s)
  moreover have "tick playingControl installedState
     = (playingControl, installedState\<lparr>currentTime := TickUpdater 1 1800\<rparr>)"
    using p l by (simp add: tick_def setCurrentTime_def m s)
  ultimately show ?thesis using p z by (simp add: tickUpdater_body_def)
qed

text \<open>
  C6. As stated (the stored time is clamped to the span of the log) the property fails.
  What holds: in any state \<open>setCurrentTime\<close> stores the time it is given, unchanged.
\<close>

theorem setCurrentTime_stores_argument:
  "currentTime (setCurrentTime (Num t) s) = Num t"
  by (simp add: setCurrentTime_def)

text \<open>On a session whose log ends at 1800: a negative time and a time past the end.\<close>

theorem setCurrentTime_unclamped_counterexample:
  "currentTime (setCurrentTime (Num (- 5)) installedState) = Num (- 5) \<and> \<not> (0 \<le> (- 5 :: real)) \<and>
   currentTime (setCurrentTime (Num 5000) installedState) = Num 5000 \<and>
   \<not> (5000 \<le> maxLogTime (logs installedState))"
  by (simp add: setCurrentTime_def maxLogTime_def installedState_def sampleLogs_def entry_def)

text \<open>
  C10. For every numeric argument, \<open>setCurrentTime\<close> leaves the logs, metrics, network,
  trains, running flag and error of the session as they were.
\<close>

theorem setCurrentTime_frame:
  "logs (setCurrentTime (Num t) s) = logs s \<and>
   metrics (setCurrentTime (Num t) s) = metrics s \<and>
   network (setCurrentTime (Num t) s) = network s \<and>
   trains (setCurrentTime (Num t) s) = trains s \<and>
   isRunning (setCurrentTime (Num t) s) = isRunning s \<and>
   error (setCurrentTime (Num t) s) = error s"
  by (simp add: setCurrentTime_def)

text \<open>
  C8. As stated (a speed that is zero or negative is rejected as an error) the property
  fails: the setter has no check. What holds: \<open>setPlaybackSpeed\<close> stores the value it is
  given, and every value the selector offers is strictly positive, so a speed chosen
  through the selector is strictly positive.
\<close>

theorem setPlaybackSpeed_options_positive:
  "playbackSpeed (setPlaybackSpeed v c) = v \<and>
   (v \<in> set speedOptions \<longrightarrow> 0 < playbackSpeed (setPlaybackSpeed v c))"
  by (auto simp: setPlaybackSpeed_def speedOptions_def)

theorem setPlaybackSpeed_options_positive_witness:
  "(1 / 2 :: real) \<in> set speedOptions \<and>
   0 < playbackSpeed (setPlaybackSpeed (1 / 2) initialControl)"
  using setPlaybackSpeed_options_positive [of "1 / 2" initialControl]
  by (simp add: speedOptions_def)

theorem setPlaybackSpeed_negative_counterexample:
  "playbackSpeed (setPlaybackSpeed (- 1) initialControl) = - 1 \<and>
   \<not> (0 < playbackSpeed (setPlaybackSpeed (- 1) initialControl)) \<and>
   setPlaybackSpeed (- 1) initialControl \<noteq> initialControl"
  by (simp add: setPlaybackSpeed_def initialControl_def)

section \<open>Interpolated positions\<close>

lemma findIndex_find:
  "(find P xs = Some a) = (0 \<le> findIndex P xs \<and> xs ! nat (findIndex P xs) = a)"
proof (induction xs)
  case Nil
  then show ?case by simp
next
  case (Cons x xs)
  show ?case
  proof (cases "P x")
    case True
    then show ?thesis by auto
  next
    case False
    have "0 \<le> findIndex P xs \<Longrightarrow> nat (findIndex P xs + 1) = Suc (nat (findIndex P xs))"
      by simp
    with False Cons show ?thesis by (auto simp: Let_def)
  qed
qed

lemma fl64_0: "fl64 0 = Fin 0"
  by (simp add: fl64_eval)
lemma fl64_half: "fl64 (1 / 2) = Fin (1 / 2)"
  by (simp add: fl64_eval)
lemma fl64_3: "fl64 3 = Fin 3"
  by (simp add: fl64_eval)
lemma fl64_5: "fl64 5 = Fin 5"
  by (simp add: fl64_eval)
lemma fl64_10: "fl64 10 = Fin 10"
  by (simp add: fl64_eval)
lemma fl64_below_one: "fl64 (1 - 1 / 2 ^ 53) = Fin (1 - 1 / 2 ^ 53)"
  by (simp add: fl64_eval)
lemma fl64_below_three: "fl64 (3 * (1 - 1 / 2 ^ 53)) = Fin (3 - 1 / 2 ^ 51)"
  by (simp add: fl64_eval)
lemma fl64_stays_below_three: "fl64 (3 - 1 / 2 ^ 51) = Fin (3 - 1 / 2 ^ 51)"
  by (simp add: fl64_eval)
lemma fl64_3333: "fl64 (3333 / 10000) = Fin (6004199023210345 / 2 ^ 54)"
  by (simp add: fl64_eval)
lemma fl64_10_times_3333:
  "fl64 (10 * (6004199023210345 / 2 ^ 54)) = Fin (7505248779012931 / 2 ^ 51)"
  by (simp add: fl64_eval)
lemma fl64_stays_3333: "fl64 (7505248779012931 / 2 ^ 51) = Fin (7505248779012931 / 2 ^ 51)"
  by (simp add: fl64_eval)
lemma fl64_overflow: "fl64 (2 ^ 1023 + 2 ^ 1023) = PosInf"
  by (simp add: fl64_eval)

lemma interpolate_sample: "interpolate (0, 0) (10, 0) (Fin (1 / 2)) = (Fin 5, Fin 0)"
  by (simp add: interpolate_def minus64_def fl64_10 fl64_5 fl64_0)

lemma interpolate_rounds:
  "interpolate (0, 0) (3, 0) (Fin (1 - 1 / 2 ^ 53)) = (Fin (3 - 1 / 2 ^ 51), Fin 0)"
proof -
  have "times64 (Fin 3) (Fin (1 - 1 / 2 ^ 53)) = Fin (3 - 1 / 2 ^ 51)"
    by (simp only: times64.simps fl64_below_three)
  moreover have "plus64 (Fin 0) (Fin (3 - 1 / 2 ^ 51)) = Fin (3 - 1 / 2 ^ 51)"
    using fl64_stays_below_three by (simp only: plus64.simps add_0_left)
  moreover have "minus64 (Fin 3) (Fin 0) = Fin 3" by (simp add: minus64_def fl64_3)
  moreover have "minus64 (Fin 0) (Fin 0) = Fin 0" by (simp add: minus64_def fl64_0)
  moreover have "times64 (Fin 0) (Fin (1 - 1 / 2 ^ 53)) = Fin 0"
    by (simp only: times64.simps mult_zero_left fl64_0)
  moreover have "plus64 (Fin 0) (Fin 0) = Fin 0" by (simp add: fl64_0)
  ultimately show ?thesis by (simp only: interpolate_def Let_def fst_conv snd_conv)
qed

lemma interpolate_overflows:
  "interpolate (- (2 ^ 1023), 0) (2 ^ 1023, 0) (Fin (1 / 2)) = (PosInf, Fin 0)"
proof -
  have "minus64 (Fin (2 ^ 1023)) (Fin (- (2 ^ 1023))) = PosInf"
    using fl64_overflow by (simp only: minus64_def neg64.simps plus64.simps minus_minus)
  moreover have "times64 PosInf (Fin (1 / 2)) = PosInf" by simp
  moreover have "plus64 (Fin (- (2 ^ 1023))) PosInf = PosInf" by simp
  moreover have "minus64 (Fin 0) (Fin 0) = Fin 0" by (simp add: minus64_def fl64_0)
  moreover have "times64 (Fin 0) (Fin (1 / 2)) = Fin 0" by (simp add: fl64_0)
  moreover have "plus64 (Fin 0) (Fin 0) = Fin 0" by (simp add: fl64_0)
  ultimately show ?thesis by (simp only: interpolate_def Let_def fst_conv snd_conv)
qed

lemma progress_of_3333: "progress_of 3333 = Fin (6004199023210345 / 2 ^ 54)"
proof -
  have "real (3333 mod 10000) / 10000 = 3333 / 10000" by simp
  then show ?thesis by (simp only: progress_of_def fl64_3333)
qed

lemma progress_of_5000: "progress_of 5000 = Fin (1 / 2)"
proof -
  have "real (5000 mod 10000) / 10000 = 1 / 2" by simp
  then show ?thesis by (simp only: progress_of_def fl64_half)
qed

lemma interpolate_3333:
  "interpolate (0, 0) (10, 0) (Fin (6004199023210345 / 2 ^ 54))
     = (Fin (7505248779012931 / 2 ^ 51), Fin 0)"
proof -
  have "minus64 (Fin 10) (Fin 0) = Fin 10" by (simp add: minus64_def fl64_10)
  moreover have "times64 (Fin 10) (Fin (6004199023210345 / 2 ^ 54))
      = Fin (7505248779012931 / 2 ^ 51)"
    by (simp only: times64.simps fl64_10_times_3333)
  moreover have "plus64 (Fin 0) (Fin (7505248779012931 / 2 ^ 51))
      = Fin (7505248779012931 / 2 ^ 51)"
    using fl64_stays_3333 by (simp only: plus64.simps add_0_left)
  moreover have "minus64 (Fin 0) (Fin 0) = Fin 0" by (simp add: minus64_def fl64_0)
  moreover have "times64 (Fin 0) (Fin (6004199023210345 / 2 ^ 54)) = Fin 0"
    by (simp only: times64.simps mult_zero_left fl64_0)
  moreover have "plus64 (Fin 0) (Fin 0) = Fin 0" by (simp add: fl64_0)
  ultimately show ?thesis by (simp only: interpolate_def Let_def fst_conv snd_conv)
qed

lemma interpolate_exact:
  assumes "representable64 (fst destination - fst origin)"
      and "representable64 ((fst destination - fst origin) * p)"
      and "representable64 (fst origin + (fst destination - fst origin) * p)"
      and "representable64 (snd destination - snd origin)"
      and "representable64 ((snd destination - snd origin) * p)"
      and "representable64 (snd origin + (snd destination - snd origin) * p)"
  shows "interpolate origin destination (Fin p)
           = (Fin (fst origin + (fst destination - fst origin) * p),
              Fin (snd origin + (snd destination - snd origin) * p))"
  using assms by (simp add: interpolate_def minus64_def representable64_def)

text \<open>
  C9. As stated (the position equals the exact linear interpolation for every origin,
  destination and progress) the property fails: each operation is rounded and may
  overflow. What holds: for a train whose current and next station both resolve (to the
  first station carrying each id), the position stored for the train is
  origin + (destination - origin) * progress evaluated in binary64 on the two station
  positions; the result equals the exact linear interpolation whenever the difference,
  the product and the sum of each coordinate are binary64 numbers; and interpolating
  from (0, 0) to (10, 0) at progress 1/2 gives (5, 0).
\<close>

theorem moveTrain_in_transit:
  assumes "find (\<lambda>s. Some (station_id s) = currentStation train) stations = Some a"
      and "find (\<lambda>s. Some (station_id s) = nextStation train) stations = Some b"
  shows "moveTrain stations now pos train (train_key train)
           = Some (interpolate (station_position a) (station_position b) (progress_of now)) \<and>
         (representable64 (fst destination - fst origin) \<and>
          representable64 ((fst destination - fst origin) * p) \<and>
          representable64 (fst origin + (fst destination - fst origin) * p) \<and>
          representable64 (snd destination - snd origin) \<and>
          representable64 ((snd destination - snd origin) * p) \<and>
          representable64 (snd origin + (snd destination - snd origin) * p) \<longrightarrow>
          interpolate origin destination (Fin p)
            = (Fin (fst origin + (fst destination - fst origin) * p),
               Fin (snd origin + (snd destination - snd origin) * p))) \<and>
         interpolate (0, 0) (10, 0) (Fin (1 / 2)) = (Fin 5, Fin 0)"
proof -
  from assms(1) have c: "0 \<le> findIndex (\<lambda>s. Some (station_id s) = currentStation train) stations"
    and ca: "stations ! nat (findIndex (\<lambda>s. Some (station_id s) = currentStation train) stations) = a"
    by (simp_all add: findIndex_find)
  from assms(2) have n: "0 \<le> findIndex (\<lambda>s. Some (station_id s) = nextStation train) stations"
    and nb: "stations ! nat (findIndex (\<lambda>s. Some (station_id s) = nextStation train) stations) = b"
    by (simp_all add: findIndex_find)
  have "moveTrain stations now pos train (train_key train)
           = Some (interpolate (station_position a) (station_position b) (progress_of now))"
    using c n by (simp add: moveTrain_def Let_def ca nb)
  then show ?thesis
    using interpolate_exact [of destination origin p] interpolate_sample by blast
qed

theorem moveTrain_in_transit_witness:
  "find (\<lambda>s. Some (station_id s) = currentStation sampleTrain) sampleStations
     = Some \<lparr>station_id = ''S1'', station_position = (0, 0)\<rparr> \<and>
   find (\<lambda>s. Some (station_id s) = nextStation sampleTrain) sampleStations
     = Some \<lparr>station_id = ''S2'', station_position = (10, 0)\<rparr> \<and>
   representable64 (10 - 0) \<and> representable64 ((10 - 0) * (1 / 2)) \<and>
   representable64 (0 + (10 - 0) * (1 / 2)) \<and> representable64 (0 - 0) \<and>
   representable64 ((0 - 0) * (1 / 2)) \<and> representable64 (0 + (0 - 0) * (1 / 2)) \<and>
   moveTrain sampleStations 5000 Map.empty sampleTrain ''T001'' = Some (Fin 5, Fin 0)"
proof -
  have a: "find (\<lambda>s. Some (station_id s) = currentStation sampleTrain) sampleStations
     = Some \<lparr>station_id = ''S1'', station_position = (0, 0)\<rparr>"
    by (simp add: sampleStations_def sampleTrain_def)
  have b: "find (\<lambda>s. Some (station_id s) = nextStation sampleTrain) sampleStations
     = Some \<lparr>station_id = ''S2'', station_position = (10, 0)\<rparr>"
    by (simp add: sampleStations_def sampleTrain_def)
  have r: "representable64 (10 - 0) \<and> representable64 ((10 - 0) * (1 / 2)) \<and>
   representable64 (0 + (10 - 0) * (1 / 2)) \<and> representable64 (0 - 0) \<and>
   representable64 ((0 - 0) * (1 / 2)) \<and> representable64 (0 + (0 - 0) * (1 / 2))"
    by (simp add: representable64_def fl64_10 fl64_5 fl64_0)
  note h = moveTrain_in_transit [OF a b, where now = 5000 and pos = Map.empty
      and origin = "(0, 0)" and destination = "(10, 0)" and p = "1 / 2"]
  from h r have i: "interpolate (0, 0) (10, 0) (Fin (1 / 2)) = (Fin (0 + (10 - 0) * (1 / 2)), Fin (0 + (0 - 0) * (1 / 2)))"
    by simp
  from h have m: "moveTrain sampleStations 5000 Map.empty sampleTrain (train_key sampleTrain)
      = Some (interpolate (0, 0) (10, 0) (progress_of 5000))"
    by simp
  have k: "train_key sampleTrain = ''T001''" by (simp add: sampleTrain_def)
  from m i have "moveTrain sampleStations 5000 Map.empty sampleTrain ''T001'' = Some (Fin 5, Fin 0)"
    by (simp add: k progress_of_5000)
  with a b r show ?thesis by blast
qed

text \<open>
  From (0, 0) to (3, 0) at the largest progress below 1 the product is rounded; at the
  clock reading 3333 the sample train between (0, 0) and (10, 0) is stored at
  3.3329999999999997, not at ten times its progress; and between coordinates
  \<open>- 2 ^ 1023\<close> and \<open>2 ^ 1023\<close> the difference overflows.
\<close>

theorem interpolate_not_exact_counterexample:
  "representable64 (1 - 1 / 2 ^ 53) \<and> 0 \<le> (1 - 1 / 2 ^ 53 :: real) \<and> (1 - 1 / 2 ^ 53 :: real) \<le> 1 \<and>
   interpolate (0, 0) (3, 0) (Fin (1 - 1 / 2 ^ 53)) = (Fin (3 - 1 / 2 ^ 51), Fin 0) \<and>
   (0 + (3 - 0) * (1 - 1 / 2 ^ 53) :: real) \<noteq> 3 - 1 / 2 ^ 51 \<and>
   progress_of 3333 = Fin (6004199023210345 / 2 ^ 54) \<and>
   moveTrain sampleStations 3333 Map.empty sampleTrain ''T001''
     = Some (Fin (7505248779012931 / 2 ^ 51), Fin 0) \<and>
   (0 + (10 - 0) * (6004199023210345 / 2 ^ 54) :: real) \<noteq> 7505248779012931 / 2 ^ 51 \<and>
   interpolate (- (2 ^ 1023), 0) (2 ^ 1023, 0) (Fin (1 / 2)) = (PosInf, Fin 0)"
proof -
  have 1: "representable64 (1 - 1 / 2 ^ 53)"
    by (simp only: representable64_def fl64_below_one)
  have 2: "0 \<le> (1 - 1 / 2 ^ 53 :: real) \<and> (1 - 1 / 2 ^ 53 :: real) \<le> 1" by simp
  have 3: "(0 + (3 - 0) * (1 - 1 / 2 ^ 53) :: real) \<noteq> 3 - 1 / 2 ^ 51" by simp
  have 4: "(0 + (10 - 0) * (6004199023210345 / 2 ^ 54) :: real) \<noteq> 7505248779012931 / 2 ^ 51"
    by simp
  have "moveTrain sampleStations 3333 Map.empty sampleTrain ''T001''
     = Some (interpolate (0, 0) (10, 0) (progress_of 3333))"
    by (simp add: moveTrain_def sampleStations_def sampleTrain_def)
  then have 5: "moveTrain sampleStations 3333 Map.empty sampleTrain ''T001''
     = Some (Fin (7505248779012931 / 2 ^ 51), Fin 0)"
    by (simp only: progress_of_3333 interpolate_3333)
  from 1 2 3 4 5 interpolate_rounds interpolate_overflows progress_of_3333
  show ?thesis by blast
qed

end
